theory Spec2Isabelle
  imports Main "HOL-Library.Word"
begin

section \<open>Request options and their normalization\<close>

text \<open>
  The request options are the object that Node's \<^verbatim>\<open>http.request\<close> receives (or
  that \<^verbatim>\<open>url.parse\<close> produces from a string). The fields read by the code are
  \<^verbatim>\<open>proto\<close>, \<^verbatim>\<open>port\<close>, \<^verbatim>\<open>host\<close>, \<^verbatim>\<open>hostname\<close> and \<^verbatim>\<open>_https_\<close>.
  A field that is \<^verbatim>\<open>undefined\<close> or \<^verbatim>\<open>null\<close> is \<open>None\<close>: the code only tests such a
  field for truthiness or overwrites it. \<^verbatim>\<open>proto\<close>, \<^verbatim>\<open>host\<close> and \<^verbatim>\<open>hostname\<close> hold
  strings, \<^verbatim>\<open>port\<close> holds a number (an integer here) or a string, as \<^verbatim>\<open>url.parse\<close>
  gives it. \<^verbatim>\<open>_https_\<close> is only tested for truthiness and is kept as a boolean.
\<close>

datatype port = PortNum int | PortStr string

record options =
  proto :: "string option"
  port :: "port option"
  host :: "string option"
  hostname :: "string option"
  https_flag :: bool

text \<open>JavaScript's \<^verbatim>\<open>Number.prototype.toString\<close> on integers: decimal digits, a minus sign
  for negative numbers.\<close>

definition digit_char :: "nat \<Rightarrow> char" where
  "digit_char d = char_of (48 + d)"

fun show_nat :: "nat \<Rightarrow> string" where
  "show_nat n = (if n < 10 then [digit_char n] else show_nat (n div 10) @ [digit_char (n mod 10)])"

declare show_nat.simps [simp del]

definition show_int :: "int \<Rightarrow> string" where
  "show_int i = (if i < 0 then CHR ''-'' # show_nat (nat (- i)) else show_nat (nat i))"

text \<open>String conversion of a port value, as \<^verbatim>\<open>'' + port\<close> and \<^verbatim>\<open>port.toString()\<close> do.\<close>

fun port_toString :: "port \<Rightarrow> string" where
  "port_toString (PortNum n) = show_int n"
| "port_toString (PortStr s) = s"

text \<open>Truthiness: the empty string and the number 0 are falsy, like an absent field.\<close>

fun truthy_str :: "string option \<Rightarrow> bool" where
  "truthy_str None = False"
| "truthy_str (Some s) = (s \<noteq> [])"

fun truthy_port :: "port option \<Rightarrow> bool" where
  "truthy_port None = False"
| "truthy_port (Some (PortNum n)) = (n \<noteq> 0)"
| "truthy_port (Some (PortStr s)) = (s \<noteq> [])"

text \<open>\<^verbatim>\<open>a || b\<close> on an optional string and on an optional port.\<close>

definition or_str :: "string option \<Rightarrow> string \<Rightarrow> string" where
  "or_str a b = (if truthy_str a then the a else b)"

definition or_port :: "port option \<Rightarrow> port \<Rightarrow> port" where
  "or_port a b = (if truthy_port a then the a else b)"

text \<open>\<^verbatim>\<open>s.split(':')[0]\<close>: the part of \<open>s\<close> before its first colon.\<close>

definition split_colon_0 :: "string \<Rightarrow> string" where
  "split_colon_0 s = takeWhile (\<lambda>c. c \<noteq> CHR '':'') s"

text \<open>
  \<^verbatim>\<open>normalizeRequestOptions\<close> of \<^verbatim>\<open>lib/common.js\<close>, statement by statement.
  The object is mutated in place and returned; the model returns the updated record.
\<close>

definition normalizeRequestOptions :: "options \<Rightarrow> options" where
  "normalizeRequestOptions options0 =
    (let options1 = options0\<lparr>proto := Some (or_str (proto options0) ''http'')\<rparr>;
         options2 = options1\<lparr>port := Some (or_port (port options1)
                      (if proto options1 = Some ''http'' then PortNum 80 else PortNum 443))\<rparr>;
         options3 = (if truthy_str (host options2)
                     then options2\<lparr>hostname :=
                            Some (or_str (hostname options2) (split_colon_0 (the (host options2))))\<rparr>
                     else options2)
     in options3\<lparr>host := Some (or_str (hostname options3) ''localhost'' @ '':''
                              @ port_toString (the (port options3)))\<rparr>)"

text \<open>\<^verbatim>\<open>normalizeForRequest\<close> of \<^verbatim>\<open>lib/intercept.js\<close>: the same statements.\<close>

definition normalizeForRequest :: "options \<Rightarrow> options" where
  "normalizeForRequest options0 =
    (let options1 = options0\<lparr>proto := Some (or_str (proto options0) ''http'')\<rparr>;
         options2 = options1\<lparr>port := Some (or_port (port options1)
                      (if proto options1 = Some ''http'' then PortNum 80 else PortNum 443))\<rparr>;
         options3 = (if truthy_str (host options2)
                     then options2\<lparr>hostname :=
                            Some (or_str (hostname options2) (split_colon_0 (the (host options2))))\<rparr>
                     else options2)
     in options3\<lparr>host := Some (or_str (hostname options3) ''localhost'' @ '':''
                              @ port_toString (the (port options3)))\<rparr>)"

text \<open>The key under which \<^verbatim>\<open>interceptorsFor\<close> looks a request up:
  \<^verbatim>\<open>options.proto + '://' + options.host\<close>, read after normalization.\<close>

definition basePath :: "options \<Rightarrow> string" where
  "basePath options0 = the (proto options0) @ ''://'' @ the (host options0)"

text \<open>An options object with every field absent, the JavaScript \<^verbatim>\<open>{}\<close>.\<close>

definition empty_options :: options where
  "empty_options = \<lparr>proto = None, port = None, host = None, hostname = None, https_flag = False\<rparr>"

text \<open>
  The endpoint that the code reads out of raw options: the scheme is \<^verbatim>\<open>proto\<close> or
  \<^verbatim>\<open>'http'\<close>; the host name is the \<^verbatim>\<open>hostname\<close> field, else the part of \<^verbatim>\<open>host\<close>
  before its first colon, else \<^verbatim>\<open>'localhost'\<close>; the port is the \<^verbatim>\<open>port\<close> field, else
  the default of the scheme. A port written inside \<^verbatim>\<open>host\<close> is not part of it.
\<close>

definition effective_scheme :: "options \<Rightarrow> string" where
  "effective_scheme options0 =
    (case proto options0 of None \<Rightarrow> ''http'' | Some p \<Rightarrow> if p = [] then ''http'' else p)"

definition default_port :: "string \<Rightarrow> port" where
  "default_port scheme = (if scheme = ''http'' then PortNum 80 else PortNum 443)"

definition effective_port :: "options \<Rightarrow> port" where
  "effective_port options0 =
    (if truthy_port (port options0) then the (port options0)
     else default_port (effective_scheme options0))"

definition effective_hostname :: "options \<Rightarrow> string" where
  "effective_hostname options0 =
    (if truthy_str (hostname options0) then the (hostname options0)
     else if truthy_str (host options0) \<and> split_colon_0 (the (host options0)) \<noteq> []
          then split_colon_0 (the (host options0))
     else ''localhost'')"

section \<open>The recorder's scope string\<close>

text \<open>The condition of the \<^verbatim>\<open>if\<close> in \<^verbatim>\<open>getScope\<close> (\<^verbatim>\<open>lib/recorder.js\<close>), read on the
  normalized options: no colon in \<^verbatim>\<open>host\<close>, a truthy \<^verbatim>\<open>port\<close>, and a port that is not
  the default of the scheme chosen by \<^verbatim>\<open>_https_\<close>.\<close>

definition getScope_appends_port :: "options \<Rightarrow> bool" where
  "getScope_appends_port options1 =
    (CHR '':'' \<notin> set (the (host options1))
     \<and> truthy_port (port options1)
     \<and> ((https_flag options1 \<and> port_toString (the (port options1)) \<noteq> ''443'')
        \<or> (\<not> https_flag options1 \<and> port_toString (the (port options1)) \<noteq> ''80'')))"

text \<open>\<^verbatim>\<open>getScope\<close>: the pieces pushed on the array \<^verbatim>\<open>scope\<close>, joined with the empty
  separator.\<close>

definition getScope :: "options \<Rightarrow> string" where
  "getScope options0 =
    (let options1 = normalizeRequestOptions options0;
         scope1 = [if https_flag options1 then ''https://'' else ''http://''];
         scope2 = scope1 @ [the (host options1)];
         scope3 = (if getScope_appends_port options1
                   then scope2 @ ['':'', port_toString (the (port options1))]
                   else scope2)
     in concat scope3)"

section \<open>Example requests\<close>

text \<open>The options \<^verbatim>\<open>{host: 'example.com', proto: 'https'}\<close>,
  \<^verbatim>\<open>{host: 'example.com:8080'}\<close> and \<^verbatim>\<open>{host: 'example.com', port: '80'}\<close>.\<close>

definition ex_https :: options where
  "ex_https = empty_options\<lparr>host := Some ''example.com'', proto := Some ''https''\<rparr>"

definition ex_host_port :: options where
  "ex_host_port = empty_options\<lparr>host := Some ''example.com:8080''\<rparr>"

definition ex_port_field :: options where
  "ex_port_field = empty_options\<lparr>host := Some ''example.com'', port := Some (PortStr ''80'')\<rparr>"

section \<open>The registry of interceptors (\<^verbatim>\<open>lib/intercept.js\<close>)\<close>

text \<open>
  Interceptors are JavaScript objects: the registry holds references to them, and
  \<^verbatim>\<open>remove\<close> and \<^verbatim>\<open>interceptorsFor\<close> write fields of the objects they reach through
  these references. An object is a reference \<open>ref\<close> into a store \<open>heap\<close>; two
  references are the same object (\<^verbatim>\<open>===\<close>) when they are equal.

  The fields of an interceptor that this file reads or writes: \<^verbatim>\<open>counter\<close>, \<^verbatim>\<open>_key\<close>
  (the text \<^verbatim>\<open>METHOD url\<close>), \<^verbatim>\<open>options.allowUnmocked\<close> (its truthiness), the method
  \<^verbatim>\<open>matchIndependentOfBody\<close> (its result's truthiness, as a function of the request
  options), and the fields that \<^verbatim>\<open>add\<close> attaches: \<^verbatim>\<open>__nock_scope\<close> (of which only
  \<^verbatim>\<open>shouldPersist()\<close> is called), \<^verbatim>\<open>__nock_scopeKey\<close>, \<^verbatim>\<open>__nock_scopeOptions\<close> (of which
  only \<^verbatim>\<open>scopeFiltering\<close> is read; \<open>None\<close> when it is not defined, else the truthiness
  of its result as a predicate on the base path) and \<^verbatim>\<open>__nock_filteredScope\<close>.
\<close>

type_synonym ref = nat

record scope =
  shouldPersist :: bool

record scopeOptions =
  scopeFiltering :: "(string \<Rightarrow> bool) option"

record interceptor =
  counter :: int
  key :: string
  allowUnmocked :: bool
  matchIndependentOfBody :: "options \<Rightarrow> bool"
  nock_scope :: scope
  nock_scopeKey :: "string option"
  nock_scopeOptions :: scopeOptions
  nock_filteredScope :: "string option"

text \<open>
  The module state: \<^verbatim>\<open>allInterceptors\<close> is an object used as a dictionary from keys to
  arrays of interceptors. Its keys are URLs, which are not array indices, so
  \<^verbatim>\<open>_.each\<close> visits them in the order of their insertion: the dictionary is an
  association list in that order, with each key once. \<^verbatim>\<open>allowNetConnect\<close> is
  \<^verbatim>\<open>false\<close> (\<open>None\<close>) or a regular expression, kept as its \<^verbatim>\<open>test\<close> predicate.
  \<^verbatim>\<open>process.env.NOCK_OFF\<close> is an optional string.
\<close>

record state =
  allInterceptors :: "(string \<times> ref list) list"
  heap :: "ref \<Rightarrow> interceptor"
  allowNetConnect :: "(string \<Rightarrow> bool) option"
  NOCK_OFF :: "string option"

datatype error =
    NetConnectNotAllowedError string
  | TypeError
  | Error string

text \<open>\<^verbatim>\<open>function NetConnectNotAllowedError(host)\<close>: the message of the error object.\<close>

definition NetConnectNotAllowedError_message :: "string \<Rightarrow> string" where
  "NetConnectNotAllowedError_message h = ''Nock: Not allow net connect for \"'' @ h @ ''\"''"

text \<open>
  The argument of \<^verbatim>\<open>enableNetConnect\<close>: a string; an object with a \<^verbatim>\<open>test\<close> function
  (a regular expression, kept as that predicate); \<^verbatim>\<open>null\<close>, whose \<^verbatim>\<open>typeof\<close> is
  \<^verbatim>\<open>'object'\<close>, so that reading \<^verbatim>\<open>matcher.test\<close> throws a \<^verbatim>\<open>TypeError\<close> before the
  policy is assigned; or any other value (\<^verbatim>\<open>undefined\<close> for a call with no argument, a
  number, a boolean, a function, an object whose \<^verbatim>\<open>test\<close> is not a function).
  \<^verbatim>\<open>new RegExp\<close> is the platform's; it is the parameter \<open>new_RegExp\<close>, which returns
  the \<^verbatim>\<open>test\<close> predicate of the expression or throws on a malformed pattern. The
  literal \<^verbatim>\<open>/.*/\<close> matches an empty prefix of every string, so its \<^verbatim>\<open>test\<close> is always
  true.
\<close>

datatype matcher =
    MatcherString string
  | MatcherRegExp "string \<Rightarrow> bool"
  | MatcherNull
  | MatcherOther

definition match_everything :: "string \<Rightarrow> bool" where
  "match_everything s = True"

fun enableNetConnect ::
  "(string \<Rightarrow> error + (string \<Rightarrow> bool)) \<Rightarrow> matcher \<Rightarrow> state \<Rightarrow> error + state" where
  "enableNetConnect new_RegExp (MatcherString m) s =
     (case new_RegExp m of
        Inl err \<Rightarrow> Inl err
      | Inr t \<Rightarrow> Inr (s\<lparr>allowNetConnect := Some t\<rparr>))"
| "enableNetConnect new_RegExp (MatcherRegExp t) s = Inr (s\<lparr>allowNetConnect := Some t\<rparr>)"
| "enableNetConnect new_RegExp MatcherNull s = Inl TypeError"
| "enableNetConnect new_RegExp MatcherOther s = Inr (s\<lparr>allowNetConnect := Some match_everything\<rparr>)"

definition disableNetConnect :: "state \<Rightarrow> state" where
  "disableNetConnect s = s\<lparr>allowNetConnect := None\<rparr>"

definition isEnabledForNetConnect :: "options \<Rightarrow> state \<Rightarrow> options \<times> bool" where
  "isEnabledForNetConnect options0 s =
    (let options1 = normalizeForRequest options0
     in (options1, case allowNetConnect s of
                     None \<Rightarrow> False
                   | Some test \<Rightarrow> test (the (host options1))))"

definition isOff :: "state \<Rightarrow> bool" where
  "isOff s = (NOCK_OFF s = Some ''true'')"

definition isOn :: "state \<Rightarrow> bool" where
  "isOn s = (\<not> isOff s)"

text \<open>\<^verbatim>\<open>add(key, interceptor, scope, scopeOptions)\<close>: a new key goes to the end of the
  dictionary with an empty array; the three fields are set on the object; the object is
  pushed on the array of the key.\<close>

definition has_key :: "(string \<times> ref list) list \<Rightarrow> string \<Rightarrow> bool" where
  "has_key reg k = (k \<in> set (map fst reg))"

fun push_at :: "string \<Rightarrow> ref \<Rightarrow> (string \<times> ref list) list \<Rightarrow> (string \<times> ref list) list" where
  "push_at k r [] = []"
| "push_at k r ((k', rs) # reg) =
     (if k' = k then (k', rs @ [r]) # reg else (k', rs) # push_at k r reg)"

definition add :: "string \<Rightarrow> ref \<Rightarrow> scope \<Rightarrow> scopeOptions \<Rightarrow> state \<Rightarrow> state" where
  "add k r sc scOpts s =
    (let reg1 = (if \<not> has_key (allInterceptors s) k
                 then allInterceptors s @ [(k, [])] else allInterceptors s);
         obj = (heap s r)\<lparr>nock_scope := sc, nock_scopeKey := Some k, nock_scopeOptions := scOpts\<rparr>
     in s\<lparr>allInterceptors := push_at k r reg1, heap := (heap s)(r := obj)\<rparr>)"








definition removeAll :: "state \<Rightarrow> state" where
  "removeAll s = s\<lparr>allInterceptors := []\<rparr>"

text \<open>
  \<^verbatim>\<open>interceptorsFor(options)\<close>. The inner \<^verbatim>\<open>_.each\<close> walks one array and stops at the
  first interceptor whose \<^verbatim>\<open>scopeFiltering\<close> is defined and truthy on the base path; the
  outer \<^verbatim>\<open>_.each\<close> walks the dictionary and stops as soon as the inner one has found
  one. The result of the scan is that interceptor together with the array it was found in
  (\<^verbatim>\<open>matchingInterceptor\<close>).
\<close>

fun each_scope :: "string \<Rightarrow> (ref \<Rightarrow> interceptor) \<Rightarrow> ref list \<Rightarrow> ref option" where
  "each_scope bp h [] = None"
| "each_scope bp h (r # rs) =
     (case scopeFiltering (nock_scopeOptions (h r)) of
        None \<Rightarrow> each_scope bp h rs
      | Some f \<Rightarrow> if f bp then Some r else each_scope bp h rs)"

fun each_interceptor ::
  "string \<Rightarrow> (ref \<Rightarrow> interceptor) \<Rightarrow> (string \<times> ref list) list \<Rightarrow> (ref \<times> ref list) option" where
  "each_interceptor bp h [] = None"
| "each_interceptor bp h ((k, rs) # reg) =
     (case each_scope bp h rs of
        Some r \<Rightarrow> Some (r, rs)
      | None \<Rightarrow> each_interceptor bp h reg)"

definition set_filteredScope :: "ref \<Rightarrow> state \<Rightarrow> state" where
  "set_filteredScope r s =
     s\<lparr>heap := (heap s)(r := (heap s r)\<lparr>nock_filteredScope := nock_scopeKey (heap s r)\<rparr>)\<rparr>"

definition interceptorsFor :: "options \<Rightarrow> state \<Rightarrow> options \<times> state \<times> ref list" where
  "interceptorsFor options0 s =
    (let options1 = normalizeForRequest options0;
         bp = basePath options1
     in case each_interceptor bp (heap s) (allInterceptors s) of
          Some (r, matchingInterceptor) \<Rightarrow> (options1, set_filteredScope r s, matchingInterceptor)
        | None \<Rightarrow>
            (options1, s, case map_of (allInterceptors s) bp of Some rs \<Rightarrow> rs | None \<Rightarrow> []))"

section \<open>The overridden \<^verbatim>\<open>request\<close> (\<^verbatim>\<open>activate\<close> in \<^verbatim>\<open>lib/intercept.js\<close>)\<close>

text \<open>
  What a call of the overridden \<^verbatim>\<open>module.request\<close> ends in: the call of the saved
  \<^verbatim>\<open>oldRequest\<close> (the real network), or an \<^verbatim>\<open>OverridenClientRequest\<close> wrapped by
  \<^verbatim>\<open>RequestOverrider\<close> with the list of candidate interceptors; a thrown error is the
  left summand. Both carry the options object as the call leaves it.
\<close>

datatype outcome =
    Forwarded options
  | Overridden options "ref list"

text \<open>The body of \<^verbatim>\<open>interceptors.forEach\<close>: the two flags after one interceptor, and
  after the whole array.\<close>

fun forEach_flags ::
  "(ref \<Rightarrow> interceptor) \<Rightarrow> options \<Rightarrow> ref list \<Rightarrow> bool \<times> bool \<Rightarrow> bool \<times> bool" where
  "forEach_flags h opts [] (matches, allowUnmocked0) = (matches, allowUnmocked0)"
| "forEach_flags h opts (r # rs) (matches, allowUnmocked0) =
     (let allowUnmocked1 =
            (if \<not> allowUnmocked0 \<and> allowUnmocked (h r) then True else allowUnmocked0);
          matches1 = (if matchIndependentOfBody (h r) opts then True else matches)
      in forEach_flags h opts rs (matches1, allowUnmocked1))"

text \<open>\<^verbatim>\<open>new OverridenClientRequest(options)\<close> looks the interceptors up once more (which
  normalizes the options and may flag an interceptor again) before it installs the
  overrider or falls back to the real \<^verbatim>\<open>ClientRequest\<close>.\<close>

definition OverridenClientRequest :: "options \<Rightarrow> state \<Rightarrow> options \<times> state \<times> bool" where
  "OverridenClientRequest options0 s =
    (case interceptorsFor options0 s of
       (options1, s1, interceptors) \<Rightarrow> (options1, s1, interceptors \<noteq> []))"

text \<open>
  \<^verbatim>\<open>module.request = function(options, callback)\<close> for the module \<open>proto_name\<close>
  (\<^verbatim>\<open>'http'\<close> or \<^verbatim>\<open>'https'\<close>). The options are taken as an object (a string argument is
  first turned into one by \<^verbatim>\<open>url.parse\<close>).
\<close>

definition request :: "string \<Rightarrow> options \<Rightarrow> state \<Rightarrow> (error + outcome) \<times> state" where
  "request proto_name options0 s =
    (let options1 = options0\<lparr>proto := Some proto_name\<rparr> in
     case interceptorsFor options1 s of
       (options2, s1, interceptors) \<Rightarrow>
         if isOn s1 \<and> interceptors \<noteq> [] then
           (case forEach_flags (heap s1) options2 interceptors (False, False) of
              (matches, allowUnmocked1) \<Rightarrow>
                if \<not> matches \<and> allowUnmocked1 then (Inr (Forwarded options2), s1)
                else (case OverridenClientRequest options2 s1 of
                        (options3, s2, overridden) \<Rightarrow>
                          (Inr (Overridden options3 interceptors), s2)))
         else if isOff s1 then (Inr (Forwarded options2), s1)
         else (case isEnabledForNetConnect options2 s1 of
                 (options3, enabled) \<Rightarrow>
                   if enabled then (Inr (Forwarded options3), s1)
                   else (Inl (NetConnectNotAllowedError
                                (NetConnectNotAllowedError_message (the (host options3)))), s1)))"

section \<open>The recorder (\<^verbatim>\<open>lib/recorder.js\<close>)\<close>

text \<open>
  A buffer is a list of bytes. \<^verbatim>\<open>toString('hex')\<close> prints two lower-case hexadecimal
  digits for each byte.
\<close>

type_synonym buffer = "8 word list"

definition hex_digit :: "nat \<Rightarrow> char" where
  "hex_digit d = (if d < 10 then char_of (48 + d) else char_of (87 + d))"

definition toString_hex :: "buffer \<Rightarrow> string" where
  "toString_hex b = concat (map (\<lambda>w. [hex_digit (unat w div 16), hex_digit (unat w mod 16)]) b)"

text \<open>
  The value that \<^verbatim>\<open>getBodyFromChunks\<close> returns is a JavaScript string or whatever
  \<^verbatim>\<open>JSON.parse\<close> returned.
\<close>

datatype 'j body = BodyString string | BodyParsed 'j

text \<open>\<^verbatim>\<open>try { ... } catch (err) { ... }\<close> on computations that return or throw.\<close>

definition try_catch :: "error + 'a \<Rightarrow> (error \<Rightarrow> error + 'a) \<Rightarrow> error + 'a" where
  "try_catch body handler = (case body of Inl err \<Rightarrow> handler err | Inr v \<Rightarrow> Inr v)"

text \<open>
  \<^verbatim>\<open>getBodyFromChunks\<close>. \<^verbatim>\<open>common.mergeChunks\<close> and \<^verbatim>\<open>common.isBinaryBuffer\<close> are not in
  the given \<^verbatim>\<open>lib/common.js\<close>; they are the parameters \<open>mergeChunks\<close> and
  \<open>isBinaryBuffer\<close>. \<^verbatim>\<open>toString('utf8')\<close> and \<^verbatim>\<open>JSON.parse\<close> are the platform's; they
  are the parameters \<open>toString_utf8\<close> and \<open>JSON_parse\<close>, the latter returning the parsed
  value or throwing.
\<close>

definition getBodyFromChunks ::
  "('c list \<Rightarrow> buffer) \<Rightarrow> (buffer \<Rightarrow> bool) \<Rightarrow> (buffer \<Rightarrow> string) \<Rightarrow> (string \<Rightarrow> error + 'j)
     \<Rightarrow> 'c list \<Rightarrow> error + 'j body" where
  "getBodyFromChunks mergeChunks isBinaryBuffer toString_utf8 JSON_parse chunks =
    (let mergedBuffer = mergeChunks chunks in
     if isBinaryBuffer mergedBuffer then Inr (BodyString (toString_hex mergedBuffer))
     else (let maybeStringifiedJson = toString_utf8 mergedBuffer in
           try_catch
             (case JSON_parse maybeStringifiedJson of
                Inl err \<Rightarrow> Inl err
              | Inr parsed \<Rightarrow> Inr (BodyParsed parsed))
             (\<lambda>err. Inr (BodyString maybeStringifiedJson))))"

text \<open>
  The state of the recorder module: the flag \<^verbatim>\<open>recordingInProgress\<close>, the array
  \<^verbatim>\<open>outputs\<close>, and the overrides installed in \<^verbatim>\<open>http\<close> and \<^verbatim>\<open>https\<close>.
  \<^verbatim>\<open>common.restoreOverriddenRequests\<close>, \<^verbatim>\<open>common.overrideRequests\<close> and
  \<^verbatim>\<open>intercept.restoreOverriddenClientRequest\<close> are not in the given files; they are
  parameters that act on the installed overrides \<open>'h\<close>.
\<close>

record ('h, 'out) recorder =
  recordingInProgress :: bool
  outputs :: "'out list"
  overrides :: 'h







definition recorder_clear :: "('h, 'out) recorder \<Rightarrow> ('h, 'out) recorder" where
  "recorder_clear s = s\<lparr>outputs := []\<rparr>"

section \<open>Notions used in the statements, and example states\<close>

text \<open>
  Words for the scope-filter override: an interceptor's filter matches a base path when
  its \<^verbatim>\<open>scopeFiltering\<close> is defined and true on it; a group (one key with its array)
  matches when one of its interceptors does; the registered interceptors are all arrays
  one after the other, in the iteration order of the dictionary.
\<close>

definition filter_matches :: "string \<Rightarrow> (ref \<Rightarrow> interceptor) \<Rightarrow> ref \<Rightarrow> bool" where
  "filter_matches bp h r =
     (case scopeFiltering (nock_scopeOptions (h r)) of None \<Rightarrow> False | Some f \<Rightarrow> f bp)"

definition group_matches :: "string \<Rightarrow> (ref \<Rightarrow> interceptor) \<Rightarrow> string \<times> ref list \<Rightarrow> bool" where
  "group_matches bp h entry = list_ex (filter_matches bp h) (snd entry)"

definition registered :: "state \<Rightarrow> ref list" where
  "registered s = concat (map snd (allInterceptors s))"



definition example_interceptor :: interceptor where
  "example_interceptor =
     \<lparr>counter = 1, key = ''GET http://example.com:80/items'', allowUnmocked = False,
      matchIndependentOfBody = (\<lambda>opts. True), nock_scope = \<lparr>shouldPersist = False\<rparr>,
      nock_scopeKey = None, nock_scopeOptions = \<lparr>scopeFiltering = None\<rparr>,
      nock_filteredScope = None\<rparr>"

definition initial_state :: state where
  "initial_state =
     \<lparr>allInterceptors = [], heap = (\<lambda>r. example_interceptor),
      allowNetConnect = Some match_everything, NOCK_OFF = None\<rparr>"

definition state_single_use :: state where
  "state_single_use =
     add ''http://example.com:80'' 0 \<lparr>shouldPersist = False\<rparr> \<lparr>scopeFiltering = None\<rparr>
       initial_state"



text \<open>
  More examples: the request \<^verbatim>\<open>{host: 'zombo.com'}\<close>, for which nothing is registered;
  the request \<^verbatim>\<open>{host: 'example.com'}\<close>; the loaded module with \<^verbatim>\<open>NOCK_OFF=true\<close> in
  the environment; and a registry whose only interceptor allows unmocked requests and
  does not match.
\<close>

definition ex_zombo :: options where
  "ex_zombo = empty_options\<lparr>host := Some ''zombo.com''\<rparr>"

definition ex_example_com :: options where
  "ex_example_com = empty_options\<lparr>host := Some ''example.com''\<rparr>"

definition state_nock_off :: state where
  "state_nock_off = initial_state\<lparr>NOCK_OFF := Some ''true''\<rparr>"

definition state_allow_unmocked :: state where
  "state_allow_unmocked =
     add ''http://example.com:80'' 0 \<lparr>shouldPersist = False\<rparr> \<lparr>scopeFiltering = None\<rparr>
       (initial_state\<lparr>heap := (\<lambda>r. example_interceptor
           \<lparr>allowUnmocked := True, matchIndependentOfBody := (\<lambda>opts. False)\<rparr>)\<rparr>)"

definition state_off_registered :: state where
  "state_off_registered = disableNetConnect (state_single_use\<lparr>NOCK_OFF := Some ''true''\<rparr>)"



text \<open>A registry with two keys; the interceptor under the second key has a scope filter
  that claims the base path \<^verbatim>\<open>http://zombo.com:80\<close>.\<close>

definition state_scope_filter :: state where
  "state_scope_filter =
     add ''http://other.test:80'' 1 \<lparr>shouldPersist = False\<rparr>
       \<lparr>scopeFiltering = Some (\<lambda>bp. bp = ''http://zombo.com:80'')\<rparr>
       state_single_use"




definition state_off_scope_filter :: state where
  "state_off_scope_filter = state_scope_filter\<lparr>NOCK_OFF := Some ''true''\<rparr>"

section \<open>Properties of normalization\<close>


lemma normalizeForRequest_eq: "normalizeForRequest = normalizeRequestOptions"
  by (rule ext) (simp add: normalizeForRequest_def normalizeRequestOptions_def)

lemma proto_normalize: "proto (normalizeRequestOptions x) = Some (effective_scheme x)"
  by (cases "proto x") (simp_all add: normalizeRequestOptions_def Let_def or_str_def effective_scheme_def)

lemma port_normalize: "port (normalizeRequestOptions x) = Some (effective_port x)"
  by (cases "proto x")
     (simp_all add: normalizeRequestOptions_def Let_def or_str_def or_port_def effective_port_def
        effective_scheme_def default_port_def)

lemma host_normalize:
  "host (normalizeRequestOptions x) =
     Some (effective_hostname x @ '':'' @ port_toString (effective_port x))"
  by (cases "proto x"; cases "hostname x"; cases "host x")
     (simp_all add: normalizeRequestOptions_def Let_def or_str_def or_port_def effective_port_def
        effective_scheme_def default_port_def effective_hostname_def)

lemma hostname_normalize:
  "hostname (normalizeRequestOptions x) =
     (if truthy_str (host x) then Some (or_str (hostname x) (split_colon_0 (the (host x))))
      else hostname x)"
  by (simp add: normalizeRequestOptions_def Let_def)

lemma https_flag_normalize: "https_flag (normalizeRequestOptions x) = https_flag x"
  by (simp add: normalizeRequestOptions_def Let_def)

text \<open>
  C1, as stated, fails: a port written inside \<^verbatim>\<open>host\<close> is dropped by
  \<^verbatim>\<open>split(':')[0]\<close>, and with no \<^verbatim>\<open>port\<close> field the default port takes its place.
  \<^verbatim>\<open>{host: 'example.com:8080'}\<close> normalizes to host \<^verbatim>\<open>'example.com:80'\<close>.
\<close>

theorem normalize_explicit_port_counterexample:
  "host (normalizeRequestOptions ex_host_port) = Some ''example.com:80''
   \<and> host (normalizeRequestOptions ex_host_port) \<noteq> Some ''example.com:8080''"
  by code_simp

text \<open>
  C1 (amended): the port of the normalized host comes from the \<^verbatim>\<open>port\<close> field, or
  from the default of the scheme when that field is absent; a port inside \<^verbatim>\<open>host\<close> is
  ignored. Two option objects with the same effective scheme, host name and port (as
  text) get the same \<^verbatim>\<open>host\<close> and the same lookup key
  \<^verbatim>\<open>scheme://hostname:port\<close>, whether the port was given by the field or by default,
  as a number or as a string. \<^verbatim>\<open>{host: 'example.com', proto: 'https'}\<close> gets port 443
  and host \<^verbatim>\<open>'example.com:443'\<close>.
\<close>

theorem normalize_same_endpoint_same_key:
  "(effective_scheme a = effective_scheme b
      \<and> effective_hostname a = effective_hostname b
      \<and> port_toString (effective_port a) = port_toString (effective_port b)
    \<longrightarrow> host (normalizeRequestOptions a) = host (normalizeRequestOptions b)
      \<and> basePath (normalizeForRequest a) = basePath (normalizeForRequest b))
   \<and> basePath (normalizeForRequest a) =
       effective_scheme a @ ''://'' @ effective_hostname a @ '':'' @ port_toString (effective_port a)
   \<and> port (normalizeRequestOptions ex_https) = Some (PortNum 443)
   \<and> host (normalizeRequestOptions ex_https) = Some ''example.com:443''"
proof -
  have key: "basePath (normalizeForRequest x) =
       effective_scheme x @ ''://'' @ effective_hostname x @ '':'' @ port_toString (effective_port x)"
    for x
    by (simp add: basePath_def normalizeForRequest_eq proto_normalize host_normalize)
  have "port (normalizeRequestOptions ex_https) = Some (PortNum 443)"
    by code_simp
  moreover have "host (normalizeRequestOptions ex_https) = Some ''example.com:443''"
    by code_simp
  ultimately show ?thesis
    by (simp add: key host_normalize)
qed

text \<open>The theorem at \<^verbatim>\<open>{host: 'example.com:8080'}\<close> and
  \<^verbatim>\<open>{host: 'example.com', port: '80'}\<close>: both are filed under
  \<^verbatim>\<open>http://example.com:80\<close>.\<close>

theorem normalize_same_endpoint_same_key_witness:
  "effective_scheme ex_host_port = effective_scheme ex_port_field
   \<and> effective_hostname ex_host_port = effective_hostname ex_port_field
   \<and> port_toString (effective_port ex_host_port) = port_toString (effective_port ex_port_field)
   \<and> basePath (normalizeForRequest ex_host_port) = ''http://example.com:80''
   \<and> basePath (normalizeForRequest ex_port_field) = ''http://example.com:80''"
proof -
  have h: "effective_scheme ex_host_port = effective_scheme ex_port_field
     \<and> effective_hostname ex_host_port = effective_hostname ex_port_field
     \<and> port_toString (effective_port ex_host_port) = port_toString (effective_port ex_port_field)"
    by code_simp
  have k: "basePath (normalizeForRequest ex_port_field) = ''http://example.com:80''"
    by code_simp
  from normalize_same_endpoint_same_key [of ex_host_port ex_port_field] h
  have "basePath (normalizeForRequest ex_host_port) = basePath (normalizeForRequest ex_port_field)"
    by blast
  with h k show ?thesis by simp
qed

text \<open>
  C8, as stated, fails on the \<^verbatim>\<open>hostname\<close> field: for \<^verbatim>\<open>{}\<close> the first pass
  leaves \<^verbatim>\<open>hostname\<close> absent (only \<^verbatim>\<open>host\<close> gets \<^verbatim>\<open>'localhost'\<close>), and the
  second pass, which now finds a \<^verbatim>\<open>host\<close>, sets \<^verbatim>\<open>hostname\<close> to
  \<^verbatim>\<open>'localhost'\<close>.
\<close>

theorem normalize_idempotent_counterexample:
  "normalizeRequestOptions (normalizeRequestOptions empty_options)
     \<noteq> normalizeRequestOptions empty_options
   \<and> hostname (normalizeRequestOptions empty_options) = None
   \<and> hostname (normalizeRequestOptions (normalizeRequestOptions empty_options)) = Some ''localhost''"
  by code_simp

lemma split_colon_0_localhost:
  "split_colon_0 (''localhost'' @ '':'' @ p) = ''localhost''"
  "split_colon_0 (''localhost'' @ '':'' @ p) \<noteq> []"
  by (simp_all add: split_colon_0_def)

lemma effective_scheme_normalize: "effective_scheme (normalizeRequestOptions x) = effective_scheme x"
  by (simp add: effective_scheme_def [of "normalizeRequestOptions x"] proto_normalize)
     (simp add: effective_scheme_def split: option.splits)

lemma truthy_port_effective: "truthy_port (Some (effective_port x))"
  by (simp add: effective_port_def default_port_def) (cases "port x"; simp)

lemma effective_port_normalize: "effective_port (normalizeRequestOptions x) = effective_port x"
  by (simp add: effective_port_def [of "normalizeRequestOptions x"] port_normalize truthy_port_effective)

lemma truthy_str_iff: "truthy_str a \<longleftrightarrow> (\<exists>s. a = Some s \<and> s \<noteq> [])"
  by (cases a) simp_all

lemma effective_hostname_normalize:
  "effective_hostname (normalizeRequestOptions x) = effective_hostname x"
proof (cases "truthy_str (hostname x)")
  case True
  then obtain s where "hostname x = Some s" "s \<noteq> []"
    by (auto simp add: truthy_str_iff)
  then show ?thesis
    by (simp add: effective_hostname_def hostname_normalize or_str_def)
next
  case False
  show ?thesis
  proof (cases "truthy_str (host x) \<and> split_colon_0 (the (host x)) \<noteq> []")
    case True
    with False show ?thesis
      by (simp add: effective_hostname_def hostname_normalize or_str_def)
  next
    case no_part: False
    with False have e: "effective_hostname x = ''localhost''"
      by (simp add: effective_hostname_def)
    from False no_part have "\<not> truthy_str (hostname (normalizeRequestOptions x))"
      by (auto simp add: hostname_normalize or_str_def)
    then show ?thesis
      by (simp only: effective_hostname_def [of "normalizeRequestOptions x"] host_normalize e
            split_colon_0_localhost option.sel if_False if_True simp_thms truthy_str.simps if_cancel)
  qed
qed


lemma normalize_twice_fields:
  "proto (normalizeRequestOptions (normalizeRequestOptions x)) = proto (normalizeRequestOptions x)"
  "port (normalizeRequestOptions (normalizeRequestOptions x)) = port (normalizeRequestOptions x)"
  "host (normalizeRequestOptions (normalizeRequestOptions x)) = host (normalizeRequestOptions x)"
  by (simp_all only: proto_normalize port_normalize host_normalize effective_scheme_normalize
        effective_port_normalize effective_hostname_normalize)

lemma more_normalize: "options.more (normalizeRequestOptions x) = options.more x"
  by (simp add: normalizeRequestOptions_def Let_def)

lemma hostname_normalize_normalized:
  "hostname (normalizeRequestOptions (normalizeRequestOptions x)) =
     Some (or_str (hostname (normalizeRequestOptions x))
            (split_colon_0 (the (host (normalizeRequestOptions x)))))"
  by (simp add: hostname_normalize [of "normalizeRequestOptions x"] host_normalize)

lemma normalize_fixed_if_hostname:
  assumes "truthy_str (hostname (normalizeRequestOptions x))"
  shows "normalizeRequestOptions (normalizeRequestOptions x) = normalizeRequestOptions x"
proof (rule options.equality)
  from assms obtain s where "hostname (normalizeRequestOptions x) = Some s" "s \<noteq> []"
    by (auto simp add: truthy_str_iff)
  then show "hostname (normalizeRequestOptions (normalizeRequestOptions x))
          = hostname (normalizeRequestOptions x)"
    by (simp add: hostname_normalize_normalized or_str_def)
qed (simp_all only: normalize_twice_fields https_flag_normalize more_normalize)

lemma hostname_normalize_truthy:
  assumes "truthy_str (hostname x)"
  shows "hostname (normalizeRequestOptions x) = hostname x"
proof -
  from assms obtain s where "hostname x = Some s" "s \<noteq> []"
    by (auto simp add: truthy_str_iff)
  then show ?thesis
    by (simp add: hostname_normalize or_str_def)
qed

lemma hostname_normalize_from_host:
  assumes "\<not> truthy_str (hostname x)" and "truthy_str (host x)"
  shows "hostname (normalizeRequestOptions x) = Some (split_colon_0 (the (host x)))"
  using assms by (simp add: hostname_normalize or_str_def)

lemma hostname_normalize_twice_truthy:
  "truthy_str (hostname (normalizeRequestOptions (normalizeRequestOptions x)))"
proof (cases "truthy_str (hostname (normalizeRequestOptions x))")
  case True
  then show ?thesis by (simp only: normalize_fixed_if_hostname)
next
  case False
  have nh: "\<not> truthy_str (hostname x)"
  proof
    assume "truthy_str (hostname x)"
    with hostname_normalize_truthy [of x] False show False by simp
  qed
  have "effective_hostname x = ''localhost''"
  proof (cases "truthy_str (host x) \<and> split_colon_0 (the (host x)) \<noteq> []")
    case True
    with nh hostname_normalize_from_host [of x] False show ?thesis
      by simp
  next
    case False
    with nh show ?thesis by (simp add: effective_hostname_def)
  qed
  with False show ?thesis
    by (simp only: hostname_normalize_normalized host_normalize or_str_def if_False option.sel
          split_colon_0_localhost truthy_str.simps simp_thms)
       simp
qed

lemma effective_hostname_localhost:
  assumes "\<not> truthy_str (hostname (normalizeRequestOptions x))"
  shows "effective_hostname x = ''localhost''"
proof -
  have nh: "\<not> truthy_str (hostname x)"
  proof
    assume "truthy_str (hostname x)"
    with hostname_normalize_truthy [of x] assms show False by simp
  qed
  show ?thesis
  proof (cases "truthy_str (host x) \<and> split_colon_0 (the (host x)) \<noteq> []")
    case True
    with nh hostname_normalize_from_host [of x] assms show ?thesis
      by simp
  next
    case False
    with nh show ?thesis by (simp add: effective_hostname_def)
  qed
qed

lemma normalize_fills_hostname:
  assumes "\<not> truthy_str (hostname (normalizeRequestOptions x))"
  shows "normalizeRequestOptions (normalizeRequestOptions x)
           = (normalizeRequestOptions x)\<lparr>hostname := Some ''localhost''\<rparr>"
proof (rule options.equality)
  from assms effective_hostname_localhost [OF assms]
  have "hostname (normalizeRequestOptions (normalizeRequestOptions x)) = Some ''localhost''"
    by (simp only: hostname_normalize_normalized host_normalize or_str_def if_False option.sel
          split_colon_0_localhost)
  then show "hostname (normalizeRequestOptions (normalizeRequestOptions x))
          = hostname ((normalizeRequestOptions x)\<lparr>hostname := Some ''localhost''\<rparr>)"
    by simp
qed (simp_all add: normalize_twice_fields https_flag_normalize more_normalize)

text \<open>
  C8 (amended): normalization is total on option objects and idempotent on
  \<^verbatim>\<open>proto\<close>, \<^verbatim>\<open>port\<close> and \<^verbatim>\<open>host\<close>, the fields of the lookup key; it never changes
  \<^verbatim>\<open>_https_\<close>. On the whole object it is idempotent when the first pass leaves a
  non-empty \<^verbatim>\<open>hostname\<close>; when the first pass leaves \<^verbatim>\<open>hostname\<close> absent or empty, the
  second pass sets \<^verbatim>\<open>hostname\<close> to \<^verbatim>\<open>'localhost'\<close> and changes nothing else; in every
  case the second pass yields a fixed point. An absent or empty \<^verbatim>\<open>proto\<close> becomes
  \<^verbatim>\<open>'http'\<close>; an absent or zero \<^verbatim>\<open>port\<close> becomes 80 for \<^verbatim>\<open>'http'\<close> and 443 for any
  other scheme; with neither \<^verbatim>\<open>hostname\<close> nor \<^verbatim>\<open>host\<close> the host is
  \<^verbatim>\<open>'localhost:' + port\<close>, and the \<^verbatim>\<open>hostname\<close> field itself is left as it was.
\<close>

theorem normalize_idempotent_on_key:
  "proto (normalizeRequestOptions (normalizeRequestOptions x)) = proto (normalizeRequestOptions x)
   \<and> port (normalizeRequestOptions (normalizeRequestOptions x)) = port (normalizeRequestOptions x)
   \<and> host (normalizeRequestOptions (normalizeRequestOptions x)) = host (normalizeRequestOptions x)
   \<and> https_flag (normalizeRequestOptions x) = https_flag x
   \<and> (truthy_str (hostname (normalizeRequestOptions x))
        \<longrightarrow> normalizeRequestOptions (normalizeRequestOptions x) = normalizeRequestOptions x)
   \<and> (\<not> truthy_str (hostname (normalizeRequestOptions x))
        \<longrightarrow> normalizeRequestOptions (normalizeRequestOptions x)
              = (normalizeRequestOptions x)\<lparr>hostname := Some ''localhost''\<rparr>)
   \<and> normalizeRequestOptions (normalizeRequestOptions (normalizeRequestOptions x))
        = normalizeRequestOptions (normalizeRequestOptions x)
   \<and> (\<not> truthy_str (proto x) \<longrightarrow> proto (normalizeRequestOptions x) = Some ''http'')
   \<and> (\<not> truthy_port (port x) \<longrightarrow>
        port (normalizeRequestOptions x) =
          Some (if proto (normalizeRequestOptions x) = Some ''http'' then PortNum 80 else PortNum 443))
   \<and> (\<not> truthy_str (hostname x) \<and> \<not> truthy_str (host x) \<longrightarrow>
        host (normalizeRequestOptions x)
          = Some (''localhost:'' @ port_toString (the (port (normalizeRequestOptions x))))
        \<and> hostname (normalizeRequestOptions x) = hostname x)"
proof -
  have defaults_proto: "\<not> truthy_str (proto x) \<longrightarrow> proto (normalizeRequestOptions x) = Some ''http''"
    by (cases "proto x") (simp_all add: proto_normalize effective_scheme_def)
  have defaults_port: "\<not> truthy_port (port x) \<longrightarrow>
        port (normalizeRequestOptions x) =
          Some (if proto (normalizeRequestOptions x) = Some ''http'' then PortNum 80 else PortNum 443)"
    by (simp add: port_normalize proto_normalize effective_port_def default_port_def)
  have defaults_host: "\<not> truthy_str (hostname x) \<and> \<not> truthy_str (host x) \<longrightarrow>
        host (normalizeRequestOptions x)
          = Some (''localhost:'' @ port_toString (the (port (normalizeRequestOptions x))))
        \<and> hostname (normalizeRequestOptions x) = hostname x"
    by (simp add: host_normalize port_normalize hostname_normalize effective_hostname_def)
  have fixed: "normalizeRequestOptions (normalizeRequestOptions (normalizeRequestOptions x))
        = normalizeRequestOptions (normalizeRequestOptions x)"
    by (rule normalize_fixed_if_hostname) (rule hostname_normalize_twice_truthy)
  have cond: "truthy_str (hostname (normalizeRequestOptions x))
        \<longrightarrow> normalizeRequestOptions (normalizeRequestOptions x) = normalizeRequestOptions x"
    by (rule impI) (rule normalize_fixed_if_hostname)
  have fills: "\<not> truthy_str (hostname (normalizeRequestOptions x))
        \<longrightarrow> normalizeRequestOptions (normalizeRequestOptions x)
              = (normalizeRequestOptions x)\<lparr>hostname := Some ''localhost''\<rparr>"
    by (rule impI) (rule normalize_fills_hostname)
  from normalize_twice_fields [of x] https_flag_normalize [of x] cond fills fixed
    defaults_proto defaults_port defaults_host
  show ?thesis
    by (intro conjI)
qed

text \<open>The theorem at \<^verbatim>\<open>{host: 'example.com', proto: 'https'}\<close> (a fixed point after
  one pass) and at \<^verbatim>\<open>{}\<close> (the defaults).\<close>

theorem normalize_idempotent_on_key_witness:
  "truthy_str (hostname (normalizeRequestOptions ex_https))
   \<and> normalizeRequestOptions (normalizeRequestOptions ex_https) = normalizeRequestOptions ex_https
   \<and> \<not> truthy_str (proto empty_options) \<and> \<not> truthy_port (port empty_options)
   \<and> \<not> truthy_str (hostname empty_options) \<and> \<not> truthy_str (host empty_options)
   \<and> proto (normalizeRequestOptions empty_options) = Some ''http''
   \<and> port (normalizeRequestOptions empty_options) = Some (PortNum 80)
   \<and> host (normalizeRequestOptions empty_options) = Some ''localhost:80''
   \<and> port (normalizeRequestOptions ex_https) = Some (PortNum 443)
   \<and> \<not> truthy_str (hostname (normalizeRequestOptions empty_options))
   \<and> normalizeRequestOptions (normalizeRequestOptions empty_options)
       = \<lparr>proto = Some ''http'', port = Some (PortNum 80), host = Some ''localhost:80'',
          hostname = Some ''localhost'', https_flag = False\<rparr>"
proof -
  have h1: "truthy_str (hostname (normalizeRequestOptions ex_https))"
    by code_simp
  have h3: "\<not> truthy_str (hostname (normalizeRequestOptions empty_options))"
    by code_simp
  have v3: "(normalizeRequestOptions empty_options)\<lparr>hostname := Some ''localhost''\<rparr>
       = \<lparr>proto = Some ''http'', port = Some (PortNum 80), host = Some ''localhost:80'',
          hostname = Some ''localhost'', https_flag = False\<rparr>"
    by code_simp
  from normalize_idempotent_on_key [of empty_options] h3
  have "normalizeRequestOptions (normalizeRequestOptions empty_options)
       = (normalizeRequestOptions empty_options)\<lparr>hostname := Some ''localhost''\<rparr>"
    by blast
  with v3 have f3: "normalizeRequestOptions (normalizeRequestOptions empty_options)
       = \<lparr>proto = Some ''http'', port = Some (PortNum 80), host = Some ''localhost:80'',
          hostname = Some ''localhost'', https_flag = False\<rparr>"
    by simp
  have h2: "\<not> truthy_str (proto empty_options) \<and> \<not> truthy_port (port empty_options)
     \<and> \<not> truthy_str (hostname empty_options) \<and> \<not> truthy_str (host empty_options)"
    by code_simp
  have v: "proto (normalizeRequestOptions empty_options) = Some ''http''
     \<and> port (normalizeRequestOptions empty_options) = Some (PortNum 80)
     \<and> host (normalizeRequestOptions empty_options) = Some ''localhost:80''
     \<and> port (normalizeRequestOptions ex_https) = Some (PortNum 443)"
    by code_simp
  from normalize_idempotent_on_key [of ex_https] h1
  have "normalizeRequestOptions (normalizeRequestOptions ex_https) = normalizeRequestOptions ex_https"
    by blast
  with h1 h2 h3 v f3 show ?thesis by simp
qed

text \<open>
  C10: the scope string of the recorder is the scheme prefix chosen by \<^verbatim>\<open>_https_\<close>
  followed by the normalized host. The normalized host always contains a colon, so the
  condition that would append \<^verbatim>\<open>options.port\<close> is never true, and the port in the scope
  is the one that normalization put into \<^verbatim>\<open>host\<close>.
\<close>

theorem getScope_is_prefix_and_host:
  "getScope x = (if https_flag x then ''https://'' else ''http://'')
                  @ the (host (normalizeRequestOptions x))
   \<and> \<not> getScope_appends_port (normalizeRequestOptions x)
   \<and> CHR '':'' \<in> set (the (host (normalizeRequestOptions x)))
   \<and> host (normalizeRequestOptions x)
       = Some (effective_hostname x @ '':'' @ port_toString (the (port (normalizeRequestOptions x))))"
proof -
  have colon: "CHR '':'' \<in> set (the (host (normalizeRequestOptions x)))"
    by (simp add: host_normalize)
  then have dead: "\<not> getScope_appends_port (normalizeRequestOptions x)"
    by (simp add: getScope_appends_port_def)
  have "getScope x = (if https_flag x then ''https://'' else ''http://'')
                  @ the (host (normalizeRequestOptions x))"
    using dead by (simp add: getScope_def Let_def https_flag_normalize)
  with colon dead show ?thesis
    by (simp add: host_normalize port_normalize)
qed

section \<open>Properties of the registry\<close>

lemma each_scope_find: "each_scope bp h rs = find (filter_matches bp h) rs"
  by (induction rs) (simp_all add: filter_matches_def split: option.splits)

lemma find_None_list_ex: "find P xs = None \<longleftrightarrow> \<not> list_ex P xs"
  by (induction xs) simp_all

lemma each_interceptor_find:
  "each_interceptor bp h reg =
     (case find (group_matches bp h) reg of
        None \<Rightarrow> None
      | Some entry \<Rightarrow> Some (the (find (filter_matches bp h) (snd entry)), snd entry))"
proof (induction reg)
  case Nil
  then show ?case by simp
next
  case (Cons entry reg)
  obtain k rs where entry: "entry = (k, rs)" by (cases entry)
  show ?case
  proof (cases "find (filter_matches bp h) rs")
    case None
    then have "\<not> group_matches bp h entry"
      by (simp add: group_matches_def entry find_None_list_ex)
    with None Cons show ?thesis
      by (simp add: entry each_scope_find)
  next
    case (Some r)
    then have "group_matches bp h entry"
      using find_None_list_ex [of "filter_matches bp h" rs]
      by (simp add: group_matches_def entry)
    with Some show ?thesis
      by (simp add: entry each_scope_find)
  qed
qed

lemma find_concat_groups:
  "find P (concat (map snd reg)) =
     (case find (\<lambda>entry. list_ex P (snd entry)) reg of
        None \<Rightarrow> None
      | Some entry \<Rightarrow> find P (snd entry))"
proof (induction reg)
  case Nil
  then show ?case by simp
next
  case (Cons entry reg)
  have app: "find P (xs @ ys) = (case find P xs of None \<Rightarrow> find P ys | Some x \<Rightarrow> Some x)" for xs ys
    by (induction xs) simp_all
  show ?case
  proof (cases "find P (snd entry)")
    case None
    then have "\<not> list_ex P (snd entry)" by (simp add: find_None_list_ex)
    with None Cons show ?thesis by (simp add: app)
  next
    case (Some r)
    then have "list_ex P (snd entry)"
      using find_None_list_ex [of P "snd entry"] by simp
    with Some show ?thesis by (simp add: app)
  qed
qed

text \<open>
  C2: \<^verbatim>\<open>interceptorsFor\<close> normalizes the options and scans every registered
  interceptor, key after key in insertion order and each array from its start. If some
  interceptor's \<^verbatim>\<open>scopeFiltering\<close> is true on the base path \<^verbatim>\<open>proto://host\<close> of the
  request, the first such interceptor gets \<^verbatim>\<open>__nock_filteredScope\<close> set (to its
  \<^verbatim>\<open>__nock_scopeKey\<close>) and the whole array it was found in is returned, which is the
  array of the first group that holds a matching interceptor; nothing else changes.
  If none matches, the state is unchanged and the array stored under the base path is
  returned, or the empty array when there is none.
\<close>

theorem interceptorsFor_scope_filter_first:
  "interceptorsFor options0 s =
     (let options1 = normalizeForRequest options0;
          bp = basePath options1
      in case find (filter_matches bp (heap s)) (registered s) of
           Some r \<Rightarrow>
             (options1,
              s\<lparr>heap := (heap s)(r := (heap s r)\<lparr>nock_filteredScope := nock_scopeKey (heap s r)\<rparr>)\<rparr>,
              snd (the (find (group_matches bp (heap s)) (allInterceptors s))))
         | None \<Rightarrow>
             (options1, s, case map_of (allInterceptors s) bp of Some rs \<Rightarrow> rs | None \<Rightarrow> []))
   \<and> (let bp = basePath (normalizeForRequest options0)
      in case find (group_matches bp (heap s)) (allInterceptors s) of
           None \<Rightarrow> find (filter_matches bp (heap s)) (registered s) = None
         | Some entry \<Rightarrow>
             find (filter_matches bp (heap s)) (registered s)
               = find (filter_matches bp (heap s)) (snd entry)
             \<and> find (filter_matches bp (heap s)) (snd entry) \<noteq> None)"
proof -
  define bp where "bp = basePath (normalizeForRequest options0)"
  have groups: "find (filter_matches bp (heap s)) (registered s) =
     (case find (group_matches bp (heap s)) (allInterceptors s) of
        None \<Rightarrow> None
      | Some entry \<Rightarrow> find (filter_matches bp (heap s)) (snd entry))"
    unfolding registered_def group_matches_def by (rule find_concat_groups)
  have found: "find (filter_matches bp (heap s)) (snd entry) \<noteq> None"
    if "find (group_matches bp (heap s)) (allInterceptors s) = Some entry" for entry
  proof -
    from that have "group_matches bp (heap s) entry"
      by (auto simp add: find_Some_iff)
    then show ?thesis
      by (simp add: group_matches_def find_None_list_ex)
  qed
  show ?thesis
  proof (cases "find (group_matches bp (heap s)) (allInterceptors s)")
    case None
    with groups show ?thesis
      by (simp add: interceptorsFor_def Let_def each_interceptor_find bp_def [symmetric])
  next
    case (Some entry)
    with found obtain r where r: "find (filter_matches bp (heap s)) (snd entry) = Some r"
      by blast
    with Some groups show ?thesis
      by (simp add: interceptorsFor_def Let_def each_interceptor_find bp_def [symmetric]
            set_filteredScope_def)
  qed
qed















section \<open>Properties of the overridden request\<close>

lemma interceptorsFor_options:
  "fst (interceptorsFor options0 s) = normalizeForRequest options0"
  by (simp add: interceptorsFor_def Let_def split: option.splits prod.splits)

lemma interceptorsFor_state:
  "fst (snd (interceptorsFor options0 s)) = s
   \<or> (\<exists>r. fst (snd (interceptorsFor options0 s)) = set_filteredScope r s)"
  by (auto simp add: interceptorsFor_def Let_def split: option.splits prod.splits)

lemma set_filteredScope_fields:
  "allInterceptors (set_filteredScope r s) = allInterceptors s"
  "allowNetConnect (set_filteredScope r s) = allowNetConnect s"
  "NOCK_OFF (set_filteredScope r s) = NOCK_OFF s"
  "counter (heap (set_filteredScope r s) r') = counter (heap s r')"
  "allowUnmocked (heap (set_filteredScope r s) r') = allowUnmocked (heap s r')"
  "matchIndependentOfBody (heap (set_filteredScope r s) r') = matchIndependentOfBody (heap s r')"
  by (simp_all add: set_filteredScope_def)

lemma interceptorsFor_state_fields:
  "allInterceptors (fst (snd (interceptorsFor options0 s))) = allInterceptors s"
  "allowNetConnect (fst (snd (interceptorsFor options0 s))) = allowNetConnect s"
  "NOCK_OFF (fst (snd (interceptorsFor options0 s))) = NOCK_OFF s"
  "counter (heap (fst (snd (interceptorsFor options0 s))) r') = counter (heap s r')"
  "allowUnmocked (heap (fst (snd (interceptorsFor options0 s))) r') = allowUnmocked (heap s r')"
  "matchIndependentOfBody (heap (fst (snd (interceptorsFor options0 s))) r')
     = matchIndependentOfBody (heap s r')"
  using interceptorsFor_state [of options0 s]
  by (auto simp add: set_filteredScope_fields)

lemma interceptorsFor_policy:
  "snd (snd (interceptorsFor options0 (s\<lparr>allowNetConnect := a\<rparr>)))
     = snd (snd (interceptorsFor options0 s))"
  by (simp add: interceptorsFor_def Let_def set_filteredScope_def split: option.splits prod.splits)

lemma forEach_flags_list_ex:
  "forEach_flags h opts rs (m, a) =
     (m \<or> list_ex (\<lambda>r. matchIndependentOfBody (h r) opts) rs,
      a \<or> list_ex (\<lambda>r. allowUnmocked (h r)) rs)"
  by (induction rs arbitrary: m a) (auto simp add: Let_def)

lemma request_off:
  assumes "NOCK_OFF s = Some ''true''"
  shows "request p options0 s =
     (Inr (Forwarded (normalizeForRequest (options0\<lparr>proto := Some p\<rparr>))),
      fst (snd (interceptorsFor (options0\<lparr>proto := Some p\<rparr>) s)))"
proof -
  obtain o2 s1 rs where i: "interceptorsFor (options0\<lparr>proto := Some p\<rparr>) s = (o2, s1, rs)"
    by (cases "interceptorsFor (options0\<lparr>proto := Some p\<rparr>) s")
  from i interceptorsFor_options [of "options0\<lparr>proto := Some p\<rparr>" s]
  have o2: "o2 = normalizeForRequest (options0\<lparr>proto := Some p\<rparr>)" by simp
  from i interceptorsFor_state_fields(3) [of "options0\<lparr>proto := Some p\<rparr>" s] assms
  have "isOff s1" by (simp add: isOff_def)
  with i o2 show ?thesis
    by (simp add: request_def Let_def isOn_def)
qed

lemma request_no_interceptors:
  assumes "isOn s" and "snd (snd (interceptorsFor (options0\<lparr>proto := Some p\<rparr>) s)) = []"
  shows "fst (request p options0 s) =
     (let options3 = normalizeForRequest (normalizeForRequest (options0\<lparr>proto := Some p\<rparr>))
      in if (case allowNetConnect s of None \<Rightarrow> False | Some test \<Rightarrow> test (the (host options3)))
         then Inr (Forwarded options3)
         else Inl (NetConnectNotAllowedError
                     (NetConnectNotAllowedError_message (the (host options3)))))"
proof -
  obtain o2 s1 rs where i: "interceptorsFor (options0\<lparr>proto := Some p\<rparr>) s = (o2, s1, rs)"
    by (cases "interceptorsFor (options0\<lparr>proto := Some p\<rparr>) s")
  from i interceptorsFor_options [of "options0\<lparr>proto := Some p\<rparr>" s]
  have o2: "o2 = normalizeForRequest (options0\<lparr>proto := Some p\<rparr>)" by simp
  from i assms(2) have rs: "rs = []" by simp
  from i interceptorsFor_state_fields(3) [of "options0\<lparr>proto := Some p\<rparr>" s] assms(1)
  have off: "\<not> isOff s1" by (simp add: isOff_def isOn_def)
  from i interceptorsFor_state_fields(2) [of "options0\<lparr>proto := Some p\<rparr>" s]
  have pol: "allowNetConnect s1 = allowNetConnect s" by simp
  from i o2 rs off pol show ?thesis
    by (simp add: request_def Let_def isEnabledForNetConnect_def split: option.splits)
qed

lemma host_normalizeForRequest_twice:
  "host (normalizeForRequest (normalizeForRequest x)) = host (normalizeForRequest x)"
  by (simp only: normalizeForRequest_eq normalize_twice_fields)

text \<open>
  C4, as stated for every request, fails when \<^verbatim>\<open>NOCK_OFF\<close> is \<^verbatim>\<open>'true'\<close>: the test
  \<^verbatim>\<open>isOff() || isEnabledForNetConnect(options)\<close> forwards the request although
  \<^verbatim>\<open>disableNetConnect()\<close> was called and nothing is registered.
\<close>

theorem request_blocked_counterexample:
  "registered (disableNetConnect state_nock_off) = []
   \<and> snd (snd (interceptorsFor (ex_zombo\<lparr>proto := Some ''http''\<rparr>)
                 (disableNetConnect state_nock_off))) = []
   \<and> fst (request ''http'' ex_zombo (disableNetConnect state_nock_off))
       = Inr (Forwarded \<lparr>proto = Some ''http'', port = Some (PortNum 80),
                host = Some ''zombo.com:80'', hostname = Some ''zombo.com'',
                https_flag = False\<rparr>)"
  by code_simp

text \<open>
  C4 (amended): with interception on (\<^verbatim>\<open>NOCK_OFF\<close> is not \<^verbatim>\<open>'true'\<close>), a request for
  which the lookup yields no interceptors throws \<^verbatim>\<open>NetConnectNotAllowedError\<close> after
  \<^verbatim>\<open>disableNetConnect()\<close>, with the message
  \<^verbatim>\<open>Nock: Not allow net connect for "host"\<close> where \<open>host\<close> is the normalized host
  \<^verbatim>\<open>hostname:port\<close>; \<^verbatim>\<open>enableNetConnect()\<close> with no argument returns with the policy
  that accepts every host, and after it the same request is handed to the real request
  function.
\<close>

theorem request_unregistered_policy:
  "isOn s \<and> snd (snd (interceptorsFor (options0\<lparr>proto := Some p\<rparr>) s)) = [] \<longrightarrow>
     fst (request p options0 (disableNetConnect s))
       = Inl (NetConnectNotAllowedError
               (''Nock: Not allow net connect for \"''
                 @ the (host (normalizeForRequest (options0\<lparr>proto := Some p\<rparr>))) @ ''\"''))
     \<and> (\<exists>s'. enableNetConnect new_RegExp MatcherOther s = Inr s'
          \<and> fst (request p options0 s')
              = Inr (Forwarded (normalizeForRequest
                      (normalizeForRequest (options0\<lparr>proto := Some p\<rparr>))))
          \<and> fst (request p options0 (s\<lparr>allowNetConnect := Some match_everything\<rparr>))
              = Inr (Forwarded (normalizeForRequest
                      (normalizeForRequest (options0\<lparr>proto := Some p\<rparr>)))))"
proof (intro impI)
  assume a: "isOn s \<and> snd (snd (interceptorsFor (options0\<lparr>proto := Some p\<rparr>) s)) = []"
  define s_e where "s_e = s\<lparr>allowNetConnect := Some match_everything\<rparr>"
  have call: "enableNetConnect new_RegExp MatcherOther s = Inr s_e"
    by (simp add: s_e_def)
  have on_d: "isOn (disableNetConnect s)" and on_e: "isOn s_e"
    using a by (simp_all add: isOn_def isOff_def disableNetConnect_def s_e_def)
  have none_d: "snd (snd (interceptorsFor (options0\<lparr>proto := Some p\<rparr>) (disableNetConnect s))) = []"
    using a by (simp add: disableNetConnect_def interceptorsFor_policy)
  have none_e: "snd (snd (interceptorsFor (options0\<lparr>proto := Some p\<rparr>) s_e)) = []"
    using a by (simp add: interceptorsFor_policy s_e_def)
  have "fst (request p options0 (disableNetConnect s))
       = Inl (NetConnectNotAllowedError
               (''Nock: Not allow net connect for \"''
                 @ the (host (normalizeForRequest (options0\<lparr>proto := Some p\<rparr>))) @ ''\"''))"
    using request_no_interceptors [OF on_d none_d]
    by (simp add: disableNetConnect_def host_normalizeForRequest_twice
          NetConnectNotAllowedError_message_def)
  moreover have "fst (request p options0 s_e)
       = Inr (Forwarded (normalizeForRequest (normalizeForRequest (options0\<lparr>proto := Some p\<rparr>))))"
    using request_no_interceptors [OF on_e none_e]
    by (simp add: match_everything_def s_e_def)
  ultimately show "fst (request p options0 (disableNetConnect s))
       = Inl (NetConnectNotAllowedError
               (''Nock: Not allow net connect for \"''
                 @ the (host (normalizeForRequest (options0\<lparr>proto := Some p\<rparr>))) @ ''\"''))
     \<and> (\<exists>s'. enableNetConnect new_RegExp MatcherOther s = Inr s'
          \<and> fst (request p options0 s')
              = Inr (Forwarded (normalizeForRequest
                      (normalizeForRequest (options0\<lparr>proto := Some p\<rparr>))))
          \<and> fst (request p options0 (s\<lparr>allowNetConnect := Some match_everything\<rparr>))
              = Inr (Forwarded (normalizeForRequest
                      (normalizeForRequest (options0\<lparr>proto := Some p\<rparr>)))))"
    using call unfolding s_e_def by simp
qed

text \<open>The theorem on the freshly loaded module and the request \<^verbatim>\<open>{host: 'zombo.com'}\<close>.\<close>

theorem request_unregistered_policy_witness:
  "isOn initial_state
   \<and> snd (snd (interceptorsFor (ex_zombo\<lparr>proto := Some ''http''\<rparr>) initial_state)) = []
   \<and> fst (request ''http'' ex_zombo (disableNetConnect initial_state))
       = Inl (NetConnectNotAllowedError ''Nock: Not allow net connect for \"zombo.com:80\"'')
   \<and> (\<exists>s'. enableNetConnect (\<lambda>pattern. Inr match_everything) MatcherOther initial_state = Inr s'
          \<and> fst (request ''http'' ex_zombo s')
              = Inr (Forwarded \<lparr>proto = Some ''http'', port = Some (PortNum 80),
                       host = Some ''zombo.com:80'', hostname = Some ''zombo.com'',
                       https_flag = False\<rparr>))"
proof -
  have h: "isOn initial_state
     \<and> snd (snd (interceptorsFor (ex_zombo\<lparr>proto := Some ''http''\<rparr>) initial_state)) = []"
    by code_simp
  have v: "the (host (normalizeForRequest (ex_zombo\<lparr>proto := Some ''http''\<rparr>))) = ''zombo.com:80''"
    "normalizeForRequest (normalizeForRequest (ex_zombo\<lparr>proto := Some ''http''\<rparr>))
       = \<lparr>proto = Some ''http'', port = Some (PortNum 80),
                host = Some ''zombo.com:80'', hostname = Some ''zombo.com'',
                https_flag = False\<rparr>"
    by code_simp+
  from request_unregistered_policy [where s = initial_state and ?options0.0 = ex_zombo
      and p = "''http''" and new_RegExp = "\<lambda>pattern. Inr match_everything"] h
  have "fst (request ''http'' ex_zombo (disableNetConnect initial_state))
       = Inl (NetConnectNotAllowedError
               (''Nock: Not allow net connect for \"''
                 @ the (host (normalizeForRequest (ex_zombo\<lparr>proto := Some ''http''\<rparr>))) @ ''\"''))
     \<and> (\<exists>s'. enableNetConnect (\<lambda>pattern. Inr match_everything) MatcherOther initial_state = Inr s'
          \<and> fst (request ''http'' ex_zombo s')
              = Inr (Forwarded (normalizeForRequest
                      (normalizeForRequest (ex_zombo\<lparr>proto := Some ''http''\<rparr>)))))"
    by blast
  with h v show ?thesis by simp
qed

lemma interceptorsFor_state_find:
  "fst (snd (interceptorsFor options0 s)) =
     (case find (filter_matches (basePath (normalizeForRequest options0)) (heap s)) (registered s) of
        None \<Rightarrow> s
      | Some r \<Rightarrow>
          s\<lparr>heap := (heap s)(r := (heap s r)\<lparr>nock_filteredScope := nock_scopeKey (heap s r)\<rparr>)\<rparr>)"
proof -
  define bp where "bp = basePath (normalizeForRequest options0)"
  have groups: "find (filter_matches bp (heap s)) (registered s) =
     (case find (group_matches bp (heap s)) (allInterceptors s) of
        None \<Rightarrow> None
      | Some entry \<Rightarrow> find (filter_matches bp (heap s)) (snd entry))"
    unfolding registered_def group_matches_def by (rule find_concat_groups)
  show ?thesis
  proof (cases "find (group_matches bp (heap s)) (allInterceptors s)")
    case None
    with groups show ?thesis
      by (simp add: interceptorsFor_def Let_def each_interceptor_find bp_def [symmetric])
  next
    case (Some entry)
    then have "group_matches bp (heap s) entry"
      by (auto simp add: find_Some_iff)
    then have "find (filter_matches bp (heap s)) (snd entry) \<noteq> None"
      by (simp add: group_matches_def find_None_list_ex)
    then obtain r where "find (filter_matches bp (heap s)) (snd entry) = Some r"
      by blast
    with Some groups show ?thesis
      by (simp add: interceptorsFor_def Let_def each_interceptor_find bp_def [symmetric]
            set_filteredScope_def)
  qed
qed

text \<open>
  C5, as stated, fails in "no matching is performed": \<^verbatim>\<open>interceptorsFor\<close> is called
  before \<^verbatim>\<open>isOn()\<close> is read, so with \<^verbatim>\<open>NOCK_OFF\<close> set to \<^verbatim>\<open>'true'\<close> the scope
  filters are still run on the base path of the request, and the interceptor whose
  filter accepts it gets \<^verbatim>\<open>__nock_filteredScope\<close> set.
\<close>

theorem request_kill_switch_flags_counterexample:
  "NOCK_OFF state_off_scope_filter = Some ''true''
   \<and> nock_filteredScope (heap state_off_scope_filter 1) = None
   \<and> nock_filteredScope (heap (snd (request ''http'' ex_zombo state_off_scope_filter)) 1)
       = Some ''http://other.test:80''"
  by code_simp

text \<open>
  C5 (amended): when \<^verbatim>\<open>NOCK_OFF\<close> is the string \<^verbatim>\<open>'true'\<close>, every request is handed
  to the real request function, with its options normalized, whatever the registry holds
  and whatever the net-connect policy is, also after \<^verbatim>\<open>disableNetConnect()\<close>. No
  interceptor is matched against the request by \<^verbatim>\<open>matchIndependentOfBody\<close>, and the
  arrays of the registry, the policy, the environment and every counter are as before.
  The lookup still runs first: the scope filters are evaluated on the base path
  \<^verbatim>\<open>proto://host\<close> of the request, and the first registered interceptor whose filter
  accepts it gets \<^verbatim>\<open>__nock_filteredScope\<close> set to its \<^verbatim>\<open>__nock_scopeKey\<close>. That is the
  only change of the state; with no such interceptor the state is unchanged.
\<close>

theorem request_kill_switch_forwards:
  "NOCK_OFF s = Some ''true'' \<longrightarrow>
     request p options0 s
       = (Inr (Forwarded (normalizeForRequest (options0\<lparr>proto := Some p\<rparr>))),
          case find (filter_matches (basePath (normalizeForRequest (options0\<lparr>proto := Some p\<rparr>)))
                      (heap s)) (registered s) of
            None \<Rightarrow> s
          | Some r \<Rightarrow>
              s\<lparr>heap := (heap s)(r := (heap s r)\<lparr>nock_filteredScope := nock_scopeKey (heap s r)\<rparr>)\<rparr>)
     \<and> fst (request p options0 (disableNetConnect s))
       = Inr (Forwarded (normalizeForRequest (options0\<lparr>proto := Some p\<rparr>)))
     \<and> allInterceptors (snd (request p options0 s)) = allInterceptors s
     \<and> allowNetConnect (snd (request p options0 s)) = allowNetConnect s
     \<and> NOCK_OFF (snd (request p options0 s)) = NOCK_OFF s
     \<and> (\<forall>r. counter (heap (snd (request p options0 s)) r) = counter (heap s r))"
proof (intro impI)
  assume off: "NOCK_OFF s = Some ''true''"
  then have off_d: "NOCK_OFF (disableNetConnect s) = Some ''true''"
    by (simp add: disableNetConnect_def)
  have st: "snd (request p options0 s) =
     (case find (filter_matches (basePath (normalizeForRequest (options0\<lparr>proto := Some p\<rparr>)))
                      (heap s)) (registered s) of
            None \<Rightarrow> s
          | Some r \<Rightarrow>
              s\<lparr>heap := (heap s)(r := (heap s r)\<lparr>nock_filteredScope := nock_scopeKey (heap s r)\<rparr>)\<rparr>)"
    by (simp only: request_off [OF off] snd_conv interceptorsFor_state_find)
  have out: "fst (request p options0 s)
       = Inr (Forwarded (normalizeForRequest (options0\<lparr>proto := Some p\<rparr>)))"
    by (simp add: request_off [OF off])
  have whole: "request p options0 s
       = (Inr (Forwarded (normalizeForRequest (options0\<lparr>proto := Some p\<rparr>))),
          case find (filter_matches (basePath (normalizeForRequest (options0\<lparr>proto := Some p\<rparr>)))
                      (heap s)) (registered s) of
            None \<Rightarrow> s
          | Some r \<Rightarrow>
              s\<lparr>heap := (heap s)(r := (heap s r)\<lparr>nock_filteredScope := nock_scopeKey (heap s r)\<rparr>)\<rparr>)"
    using st out by (simp add: prod_eq_iff)
  have rest: "fst (request p options0 (disableNetConnect s))
       = Inr (Forwarded (normalizeForRequest (options0\<lparr>proto := Some p\<rparr>)))
     \<and> allInterceptors (snd (request p options0 s)) = allInterceptors s
     \<and> allowNetConnect (snd (request p options0 s)) = allowNetConnect s
     \<and> NOCK_OFF (snd (request p options0 s)) = NOCK_OFF s
     \<and> (\<forall>r. counter (heap (snd (request p options0 s)) r) = counter (heap s r))"
    by (simp add: request_off [OF off] request_off [OF off_d] interceptorsFor_state_fields)
  from whole rest
  show "request p options0 s
       = (Inr (Forwarded (normalizeForRequest (options0\<lparr>proto := Some p\<rparr>))),
          case find (filter_matches (basePath (normalizeForRequest (options0\<lparr>proto := Some p\<rparr>)))
                      (heap s)) (registered s) of
            None \<Rightarrow> s
          | Some r \<Rightarrow>
              s\<lparr>heap := (heap s)(r := (heap s r)\<lparr>nock_filteredScope := nock_scopeKey (heap s r)\<rparr>)\<rparr>)
     \<and> fst (request p options0 (disableNetConnect s))
       = Inr (Forwarded (normalizeForRequest (options0\<lparr>proto := Some p\<rparr>)))
     \<and> allInterceptors (snd (request p options0 s)) = allInterceptors s
     \<and> allowNetConnect (snd (request p options0 s)) = allowNetConnect s
     \<and> NOCK_OFF (snd (request p options0 s)) = NOCK_OFF s
     \<and> (\<forall>r. counter (heap (snd (request p options0 s)) r) = counter (heap s r))"
    by (rule conjI)
qed

text \<open>The theorem with net connect disabled and an interceptor registered for the very
  endpoint of the request (state unchanged), and on the registry with the scope filter
  (one interceptor flagged).\<close>

theorem request_kill_switch_forwards_witness:
  "NOCK_OFF state_off_registered = Some ''true''
   \<and> registered state_off_registered = [0]
   \<and> snd (snd (interceptorsFor (ex_example_com\<lparr>proto := Some ''http''\<rparr>) state_off_registered)) = [0]
   \<and> find (filter_matches ''http://example.com:80'' (heap state_off_registered))
        (registered state_off_registered) = None
   \<and> request ''http'' ex_example_com state_off_registered
       = (Inr (Forwarded \<lparr>proto = Some ''http'', port = Some (PortNum 80),
                host = Some ''example.com:80'', hostname = Some ''example.com'',
                https_flag = False\<rparr>), state_off_registered)
   \<and> NOCK_OFF state_off_scope_filter = Some ''true''
   \<and> find (filter_matches ''http://zombo.com:80'' (heap state_off_scope_filter))
        (registered state_off_scope_filter) = Some 1
   \<and> request ''http'' ex_zombo state_off_scope_filter
       = (Inr (Forwarded \<lparr>proto = Some ''http'', port = Some (PortNum 80),
                host = Some ''zombo.com:80'', hostname = Some ''zombo.com'',
                https_flag = False\<rparr>),
          state_off_scope_filter\<lparr>heap := (heap state_off_scope_filter)
            (1 := (heap state_off_scope_filter 1)
                    \<lparr>nock_filteredScope := nock_scopeKey (heap state_off_scope_filter 1)\<rparr>)\<rparr>)"
proof -
  have h: "NOCK_OFF state_off_registered = Some ''true''"
    and r: "registered state_off_registered = [0]"
    and l: "snd (snd (interceptorsFor (ex_example_com\<lparr>proto := Some ''http''\<rparr>) state_off_registered)) = [0]"
    and v: "normalizeForRequest (ex_example_com\<lparr>proto := Some ''http''\<rparr>)
       = \<lparr>proto = Some ''http'', port = Some (PortNum 80),
                host = Some ''example.com:80'', hostname = Some ''example.com'',
                https_flag = False\<rparr>"
    and b: "basePath \<lparr>proto = Some ''http'', port = Some (PortNum 80),
                host = Some ''example.com:80'', hostname = Some ''example.com'',
                https_flag = False\<rparr>
       = ''http://example.com:80''"
    and f: "find (filter_matches ''http://example.com:80'' (heap state_off_registered))
        (registered state_off_registered) = None"
    by code_simp+
  have h': "NOCK_OFF state_off_scope_filter = Some ''true''"
    and v': "normalizeForRequest (ex_zombo\<lparr>proto := Some ''http''\<rparr>)
       = \<lparr>proto = Some ''http'', port = Some (PortNum 80),
                host = Some ''zombo.com:80'', hostname = Some ''zombo.com'',
                https_flag = False\<rparr>"
    and b': "basePath \<lparr>proto = Some ''http'', port = Some (PortNum 80),
                host = Some ''zombo.com:80'', hostname = Some ''zombo.com'',
                https_flag = False\<rparr>
       = ''http://zombo.com:80''"
    and f': "find (filter_matches ''http://zombo.com:80'' (heap state_off_scope_filter))
        (registered state_off_scope_filter) = Some 1"
    by code_simp+
  from request_kill_switch_forwards [where s = state_off_registered and p = "''http''"
      and ?options0.0 = ex_example_com] h
  have 1: "request ''http'' ex_example_com state_off_registered
       = (Inr (Forwarded \<lparr>proto = Some ''http'', port = Some (PortNum 80),
                host = Some ''example.com:80'', hostname = Some ''example.com'',
                https_flag = False\<rparr>), state_off_registered)"
    by (simp only: v b f option.case simp_thms)
  from request_kill_switch_forwards [where s = state_off_scope_filter and p = "''http''"
      and ?options0.0 = ex_zombo] h'
  have 2: "request ''http'' ex_zombo state_off_scope_filter
       = (Inr (Forwarded \<lparr>proto = Some ''http'', port = Some (PortNum 80),
                host = Some ''zombo.com:80'', hostname = Some ''zombo.com'',
                https_flag = False\<rparr>),
          state_off_scope_filter\<lparr>heap := (heap state_off_scope_filter)
            (1 := (heap state_off_scope_filter 1)
                    \<lparr>nock_filteredScope := nock_scopeKey (heap state_off_scope_filter 1)\<rparr>)\<rparr>)"
    by (simp only: v' b' f' option.case simp_thms)
  from h r l f 1 h' f' 2 show ?thesis
    by (intro conjI)
qed

lemma request_candidates:
  assumes "isOn s" and "snd (snd (interceptorsFor (options0\<lparr>proto := Some p\<rparr>) s)) = rs"
    and "rs \<noteq> []"
  shows "fst (request p options0 s) =
     (let options2 = normalizeForRequest (options0\<lparr>proto := Some p\<rparr>)
      in if \<not> list_ex (\<lambda>r. matchIndependentOfBody (heap s r) options2) rs
            \<and> list_ex (\<lambda>r. allowUnmocked (heap s r)) rs
         then Inr (Forwarded options2)
         else Inr (Overridden (normalizeForRequest options2) rs))"
proof -
  obtain o2 s1 rs' where i: "interceptorsFor (options0\<lparr>proto := Some p\<rparr>) s = (o2, s1, rs')"
    by (cases "interceptorsFor (options0\<lparr>proto := Some p\<rparr>) s")
  from i interceptorsFor_options [of "options0\<lparr>proto := Some p\<rparr>" s]
  have o2: "o2 = normalizeForRequest (options0\<lparr>proto := Some p\<rparr>)" by simp
  from i assms(2) have rs: "rs' = rs" by simp
  from i interceptorsFor_state_fields(3) [of "options0\<lparr>proto := Some p\<rparr>" s] assms(1)
  have on: "isOn s1" by (simp add: isOff_def isOn_def)
  from i interceptorsFor_state_fields(5,6) [of "options0\<lparr>proto := Some p\<rparr>" s]
  have fields: "allowUnmocked (heap s1 r) = allowUnmocked (heap s r)"
    "matchIndependentOfBody (heap s1 r) = matchIndependentOfBody (heap s r)" for r
    by simp_all
  obtain o3 s2 b where c: "OverridenClientRequest o2 s1 = (o3, s2, b)"
    by (cases "OverridenClientRequest o2 s1")
  with interceptorsFor_options [of o2 s1] have o3: "o3 = normalizeForRequest o2"
    by (auto simp add: OverridenClientRequest_def split: prod.splits)
  from i rs on assms(3) c o3 o2 show ?thesis
    by (simp add: request_def Let_def forEach_flags_list_ex fields)
qed

text \<open>
  C6: with interception on and a non-empty list of candidate interceptors, the request
  is handed to the real request function exactly when no candidate matches it
  independently of the body and some candidate has \<^verbatim>\<open>allowUnmocked\<close> set; in every
  other case an overridden request is made with the candidates.
\<close>

theorem request_allowUnmocked:
  "isOn s \<and> snd (snd (interceptorsFor (options0\<lparr>proto := Some p\<rparr>) s)) = rs \<and> rs \<noteq> [] \<longrightarrow>
     (let options2 = normalizeForRequest (options0\<lparr>proto := Some p\<rparr>)
      in if \<not> list_ex (\<lambda>r. matchIndependentOfBody (heap s r) options2) rs
            \<and> list_ex (\<lambda>r. allowUnmocked (heap s r)) rs
         then fst (request p options0 s) = Inr (Forwarded options2)
         else fst (request p options0 s) = Inr (Overridden (normalizeForRequest options2) rs))"
proof (intro impI)
  assume a: "isOn s \<and> snd (snd (interceptorsFor (options0\<lparr>proto := Some p\<rparr>) s)) = rs \<and> rs \<noteq> []"
  then have "isOn s" and "snd (snd (interceptorsFor (options0\<lparr>proto := Some p\<rparr>) s)) = rs"
    and "rs \<noteq> []"
    by simp_all
  from request_candidates [OF this]
  show "let options2 = normalizeForRequest (options0\<lparr>proto := Some p\<rparr>)
      in if \<not> list_ex (\<lambda>r. matchIndependentOfBody (heap s r) options2) rs
            \<and> list_ex (\<lambda>r. allowUnmocked (heap s r)) rs
         then fst (request p options0 s) = Inr (Forwarded options2)
         else fst (request p options0 s) = Inr (Overridden (normalizeForRequest options2) rs)"
    by (simp add: Let_def)
qed

text \<open>The theorem on a registry whose interceptor allows unmocked requests and does not
  match (forwarded), and on one whose interceptor matches (overridden).\<close>

theorem request_allowUnmocked_witness:
  "isOn state_allow_unmocked
   \<and> snd (snd (interceptorsFor (ex_example_com\<lparr>proto := Some ''http''\<rparr>) state_allow_unmocked)) = [0]
   \<and> fst (request ''http'' ex_example_com state_allow_unmocked)
       = Inr (Forwarded \<lparr>proto = Some ''http'', port = Some (PortNum 80),
                host = Some ''example.com:80'', hostname = Some ''example.com'',
                https_flag = False\<rparr>)
   \<and> isOn state_single_use
   \<and> snd (snd (interceptorsFor (ex_example_com\<lparr>proto := Some ''http''\<rparr>) state_single_use)) = [0]
   \<and> fst (request ''http'' ex_example_com state_single_use)
       = Inr (Overridden \<lparr>proto = Some ''http'', port = Some (PortNum 80),
                host = Some ''example.com:80'', hostname = Some ''example.com'',
                https_flag = False\<rparr> [0])"
proof -
  have h1: "isOn state_allow_unmocked
     \<and> snd (snd (interceptorsFor (ex_example_com\<lparr>proto := Some ''http''\<rparr>) state_allow_unmocked)) = [0]
     \<and> [0::nat] \<noteq> []"
    and h2: "isOn state_single_use
     \<and> snd (snd (interceptorsFor (ex_example_com\<lparr>proto := Some ''http''\<rparr>) state_single_use)) = [0]
     \<and> [0::nat] \<noteq> []"
    by code_simp+
  have c1: "\<not> list_ex (\<lambda>r. matchIndependentOfBody (heap state_allow_unmocked r)
                 (normalizeForRequest (ex_example_com\<lparr>proto := Some ''http''\<rparr>))) [0]
            \<and> list_ex (\<lambda>r. allowUnmocked (heap state_allow_unmocked r)) [0]"
    and c2: "list_ex (\<lambda>r. matchIndependentOfBody (heap state_single_use r)
                 (normalizeForRequest (ex_example_com\<lparr>proto := Some ''http''\<rparr>))) [0]"
    by code_simp+
  have v: "normalizeForRequest (ex_example_com\<lparr>proto := Some ''http''\<rparr>)
       = \<lparr>proto = Some ''http'', port = Some (PortNum 80),
                host = Some ''example.com:80'', hostname = Some ''example.com'',
                https_flag = False\<rparr>"
    "normalizeForRequest (normalizeForRequest (ex_example_com\<lparr>proto := Some ''http''\<rparr>))
       = \<lparr>proto = Some ''http'', port = Some (PortNum 80),
                host = Some ''example.com:80'', hostname = Some ''example.com'',
                https_flag = False\<rparr>"
    by code_simp+
  from request_allowUnmocked [where s = state_allow_unmocked and p = "''http''"
      and ?options0.0 = ex_example_com and rs = "[0]"] h1 c1
  have r1: "fst (request ''http'' ex_example_com state_allow_unmocked)
       = Inr (Forwarded (normalizeForRequest (ex_example_com\<lparr>proto := Some ''http''\<rparr>)))"
    by (simp add: Let_def)
  from request_allowUnmocked [where s = state_single_use and p = "''http''"
      and ?options0.0 = ex_example_com and rs = "[0]"] h2 c2
  have r2: "fst (request ''http'' ex_example_com state_single_use)
       = Inr (Overridden (normalizeForRequest
                (normalizeForRequest (ex_example_com\<lparr>proto := Some ''http''\<rparr>))) [0])"
    by (simp add: Let_def)
  from h1 h2 r1 r2 v show ?thesis by simp
qed

section \<open>Properties of the recorder\<close>

lemma hex_digit_range: "d < 16 \<Longrightarrow> hex_digit d \<in> set ''0123456789abcdef''"
proof -
  have all: "list_all (\<lambda>d. hex_digit d \<in> set ''0123456789abcdef'') [0..<16]"
    by code_simp
  assume "d < 16"
  then have "d \<in> set [0..<16]" by simp
  with all show ?thesis
    unfolding list_all_iff by blast
qed

lemma toString_hex_length: "length (toString_hex b) = 2 * length b"
  by (induction b) (simp_all add: toString_hex_def)

lemma toString_hex_chars: "set (toString_hex b) \<subseteq> set ''0123456789abcdef''"
proof (induction b)
  case Nil
  then show ?case by (simp add: toString_hex_def)
next
  case (Cons w b)
  have "unat w < 256" using unsigned_less [of w] by simp
  then have "unat w div 16 < 16" and "unat w mod 16 < 16" by simp_all
  then have "hex_digit (unat w div 16) \<in> set ''0123456789abcdef''"
    and "hex_digit (unat w mod 16) \<in> set ''0123456789abcdef''"
    by (simp_all only: hex_digit_range)
  with Cons show ?case
    unfolding toString_hex_def by (simp del: set_simps add: list.set(2))
qed

lemma toString_hex_example: "toString_hex [0xDE, 0xAD, 0x00, 0x7F] = ''dead007f''"
  by code_simp

text \<open>
  C7: \<^verbatim>\<open>getBodyFromChunks\<close> always returns a value and never throws. On the merged buffer:
  if the binary test succeeds, the value is the hex text of the buffer (two digits from
  \<^verbatim>\<open>0123456789abcdef\<close> for each byte); otherwise, if \<^verbatim>\<open>JSON.parse\<close> accepts the UTF-8
  text of the buffer, the value is what it parsed; otherwise it is that text itself: the
  error of \<^verbatim>\<open>JSON.parse\<close> is caught and goes no further.
\<close>

theorem getBodyFromChunks_classification:
  "getBodyFromChunks mergeChunks isBinaryBuffer toString_utf8 JSON_parse chunks =
     Inr (let mergedBuffer = mergeChunks chunks in
          if isBinaryBuffer mergedBuffer then BodyString (toString_hex mergedBuffer)
          else case JSON_parse (toString_utf8 mergedBuffer) of
                 Inr parsed \<Rightarrow> BodyParsed parsed
               | Inl err \<Rightarrow> BodyString (toString_utf8 mergedBuffer))
   \<and> length (toString_hex (mergeChunks chunks)) = 2 * length (mergeChunks chunks)
   \<and> set (toString_hex (mergeChunks chunks)) \<subseteq> set ''0123456789abcdef''"
proof -
  have "getBodyFromChunks mergeChunks isBinaryBuffer toString_utf8 JSON_parse chunks =
     Inr (let mergedBuffer = mergeChunks chunks in
          if isBinaryBuffer mergedBuffer then BodyString (toString_hex mergedBuffer)
          else case JSON_parse (toString_utf8 mergedBuffer) of
                 Inr parsed \<Rightarrow> BodyParsed parsed
               | Inl err \<Rightarrow> BodyString (toString_utf8 mergedBuffer))"
    by (cases "JSON_parse (toString_utf8 (mergeChunks chunks))")
       (simp_all add: getBodyFromChunks_def try_catch_def Let_def)
  with toString_hex_length toString_hex_chars show ?thesis
    by blast
qed









section \<open>Examples of lookups\<close>

text \<open>A request to \<^verbatim>\<open>zombo.com\<close>, for which nothing is filed, gets the array of
  \<^verbatim>\<open>http://other.test:80\<close>, and the interceptor there is flagged; a request to
  \<^verbatim>\<open>example.com\<close> gets the array under its own key and flags nothing.\<close>

lemma interceptorsFor_scope_filter_example:
  "allInterceptors state_scope_filter
     = [(''http://example.com:80'', [0]), (''http://other.test:80'', [1])]"
  "snd (snd (interceptorsFor ex_zombo state_scope_filter)) = [1]"
  "nock_filteredScope (heap (fst (snd (interceptorsFor ex_zombo state_scope_filter))) 1)
     = Some ''http://other.test:80''"
  "nock_filteredScope (heap state_scope_filter 1) = None"
  "snd (snd (interceptorsFor ex_example_com state_scope_filter)) = [0]"
  "nock_filteredScope (heap (fst (snd (interceptorsFor ex_example_com state_scope_filter))) 1)
     = None"
  by code_simp+

end
